theory Spec2Isabelle
  imports Main "HOL-Library.AList" "HOL-Library.Word"
begin

section \<open>The output area widget (src/outputarea/widget.ts)\<close>

text \<open>
  The module is glue between a kernel, an observable list of outputs and a tree of
  widgets. The embedding keeps the shape of the source:
  \<^item> a widget is a value of the datatype \<open>widget\<close>: its CSS classes, its text and its
    children; the subclasses \<open>Gutter\<close> and \<open>Stdin\<close> are constructors of their own that
    carry the private fields of the class;
  \<^item> the output area is the record \<open>output_area\<close>; a method that mutates \<open>this\<close> is a
    function from the area to the area, and a method that can throw returns
    \<open>error + output_area\<close> (\<open>Inl\<close> the exception);
  \<^item> the list of children of the area's \<open>PanelLayout\<close> is the field \<open>widgets\<close>. Disposing
    of a child removes it from that list at once (the source relies on it: \<open>clear\<close>
    disposes of \<open>widgets.at(0)\<close> again and again), and the field \<open>disposed\<close> logs the
    children disposed of, oldest first;
  \<^item> the output model, the kernel and the MIME renderer are not part of the module.
    Calls made on the model are values of \<open>model_call\<close>, the change events the model
    sends back are values of \<open>change_args\<close>, and the renderer is a function.
  A leading underscore of a source name is dropped (\<open>_setOutput\<close> is \<open>setOutput\<close>).
\<close>

subsection \<open>Constants\<close>

definition DRAG_THRESHOLD :: int where
  "DRAG_THRESHOLD = 5"

definition FACTORY_MIME :: string where
  "FACTORY_MIME = ''application/vnd.phosphor.widget-factory''"

definition OUTPUT_AREA_CLASS :: string where
  "OUTPUT_AREA_CLASS = ''jp-OutputArea''"

definition MIRRORED_OUTPUT_AREA_CLASS :: string where
  "MIRRORED_OUTPUT_AREA_CLASS = ''jp-MirroredOutputArea''"

definition CHILD_CLASS :: string where
  "CHILD_CLASS = ''jp-OutputArea-child''"

definition GUTTER_CLASS :: string where
  "GUTTER_CLASS = ''jp-Output-gutter''"

definition OUTPUT_CLASS :: string where
  "OUTPUT_CLASS = ''jp-OutputArea-output''"

definition STDIN_CLASS :: string where
  "STDIN_CLASS = ''jp-OutputArea-stdin''"

definition EXECUTE_CLASS :: string where
  "EXECUTE_CLASS = ''jp-Output-executeResult''"

definition DISPLAY_CLASS :: string where
  "DISPLAY_CLASS = ''jp-Output-displayData''"

definition STDOUT_CLASS :: string where
  "STDOUT_CLASS = ''jp-Output-stdout''"

definition STDERR_CLASS :: string where
  "STDERR_CLASS = ''jp-Output-stderr''"

definition ERROR_CLASS :: string where
  "ERROR_CLASS = ''jp-Output-error''"

definition STDIN_GUTTER_CLASS :: string where
  "STDIN_GUTTER_CLASS = ''jp-Stdin-stdinPrompt''"

definition STDIN_INPUT_CLASS :: string where
  "STDIN_INPUT_CLASS = ''jp-Stdin-stdinInput''"

definition STDIN_RENDERED_CLASS :: string where
  "STDIN_RENDERED_CLASS = ''jp-Stdin-stdinRendered''"

definition FIXED_HEIGHT_CLASS :: string where
  "FIXED_HEIGHT_CLASS = ''jp-mod-fixedHeight''"

definition COLLAPSED_CLASS :: string where
  "COLLAPSED_CLASS = ''jp-mod-collapsed''"

subsection \<open>Errors, DOM text and JSON\<close>

text \<open>
  The exceptions the module can meet: a \<open>TypeError\<close> when a method is called on
  \<open>undefined\<close> (a read past the end of the children), and the DOM's \<open>NotFoundError\<close> of
  \<open>replaceChild\<close>.
\<close>

datatype error = TypeError | NotFoundError

text \<open>
  Text typed by the user or sent by the kernel is a JavaScript string: a sequence of
  UTF-16 code units, and \<open>length\<close> counts code units. Class names, message types and
  the gutter's label are ASCII and stay \<open>string\<close>.
\<close>

type_synonym js_string = "16 word list"

text \<open>The one-character string of line 645: U+00B7, the middle dot.\<close>

definition MIDDLE_DOT :: js_string where
  "MIDDLE_DOT = [0xB7]"

text \<open>
  \<open>Array(n)\<close> is an array of \<open>n\<close> holes, and \<open>join\<close> writes a hole as the empty
  string.
\<close>

definition Array :: "nat \<Rightarrow> js_string list" where
  "Array n = replicate n []"

fun join :: "js_string list \<Rightarrow> js_string \<Rightarrow> js_string" where
  "join [] sep = []"
| "join [x] sep = x"
| "join (x # y # ys) sep = x @ sep @ join (y # ys) sep"

datatype json =
    JNull
  | JBool bool
  | JNumber int
  | JString string
  | JArray "json list"
  | JObject "(string \<times> json) list"

type_synonym json_object = "(string \<times> json) list"

subsection \<open>The default stdin widget (class Stdin)\<close>

text \<open>
  The node of a \<open>Stdin\<close> widget holds a prompt span and an input element
  (\<open>Private.createInputWidgetNode\<close>). The input element stays referenced by the field
  \<open>_input\<close> after it has left the node, so its type and value are fields of the record.
  \<open>input_replies\<close> logs the values handed to \<open>kernel.sendInputReply\<close>, oldest first.
\<close>

datatype element = Span string js_string | Input string

record stdin =
  node :: "element list"
  input_type :: string
  input_value :: js_string
  kernel :: nat
  input_replies :: "js_string list"

record stdin_options =
  prompt :: js_string
  password :: bool
  opt_kernel :: nat

definition createInputWidgetNode :: "element list" where
  "createInputWidgetNode = [Span STDIN_GUTTER_CLASS [], Input STDIN_INPUT_CLASS]"

text \<open>The constructor writes the prompt into the first child of the node.\<close>

fun set_first_text :: "js_string \<Rightarrow> element list \<Rightarrow> element list" where
  "set_first_text t (Span c _ # es) = Span c t # es"
| "set_first_text t es = es"

definition new_Stdin :: "stdin_options \<Rightarrow> stdin" where
  "new_Stdin options =
     \<lparr>node = set_first_text (prompt options) createInputWidgetNode,
      input_type = (if password options then ''password'' else ''text''),
      input_value = [],
      kernel = opt_kernel options,
      input_replies = []\<rparr>"

text \<open>
  \<open>node.replaceChild(new, old)\<close> throws \<open>NotFoundError\<close> when \<open>old\<close> is not a child of
  the node.
\<close>

fun replaceChild :: "element \<Rightarrow> element \<Rightarrow> element list \<Rightarrow> element list option" where
  "replaceChild new old [] = None"
| "replaceChild new old (e # es) =
     (if e = old then Some (new # es)
      else map_option ((#) e) (replaceChild new old es))"

record keyboard_event =
  event_type :: string
  keyCode :: int

text \<open>
  \<open>Stdin.handleEvent\<close> (lines 635-654). The result is the widget after the call and the
  exception the call ended with, if any: the reply to the kernel is sent before the node
  is touched, so it stays sent when \<open>replaceChild\<close> throws. \<open>event.stopPropagation()\<close>
  acts on the event only and is left out.
\<close>

definition rendered_text :: "stdin \<Rightarrow> js_string" where
  "rendered_text s =
     (if input_type s = ''password''
      then join (Array (length (input_value s) + 1)) MIDDLE_DOT
      else input_value s)"

definition Stdin_handleEvent :: "keyboard_event \<Rightarrow> stdin \<Rightarrow> stdin \<times> error option" where
  "Stdin_handleEvent event s =
     (if event_type event = ''keydown'' then
        (if keyCode event = 13 then
           (let s1 = s\<lparr>input_replies := input_replies s @ [input_value s]\<rparr>;
                rendered = Span STDIN_RENDERED_CLASS (rendered_text s)
            in case replaceChild rendered (Input STDIN_INPUT_CLASS) (node s1) of
                 None \<Rightarrow> (s1, Some NotFoundError)
               | Some n \<Rightarrow> (s1\<lparr>node := n\<rparr>, None))
         else (s, None))
      else (s, None))"

subsection \<open>The default gutter (class Gutter)\<close>

text \<open>
  A \<open>Drag\<close> as \<open>_startDrag\<close> builds it: the MIME types of its data (the value stored
  under \<open>FACTORY_MIME\<close> is a function that mirrors the output area when the drop asks
  for it), the two actions, and the point it was started at.
\<close>

record drag =
  mime_types :: "string list"
  supportedActions :: string
  proposedAction :: string
  start_point :: "int \<times> int"

text \<open>
  The private fields of a gutter: \<open>_drag\<close>, \<open>_dragData\<close> (\<open>pressX\<close>, \<open>pressY\<close>), and
  whether the gutter listens to \<open>mousemove\<close> and \<open>mouseup\<close> on the document.
\<close>

record gutter =
  drag_of :: "drag option"
  dragData :: "(int \<times> int) option"
  listening :: bool

record mouse_event =
  mouse_type :: string
  button :: int
  clientX :: int
  clientY :: int

definition new_Gutter :: gutter where
  "new_Gutter = \<lparr>drag_of = None, dragData = None, listening = False\<rparr>"

definition evtMousedown :: "mouse_event \<Rightarrow> gutter \<Rightarrow> gutter" where
  "evtMousedown event g =
     (if button event = 0
      then g\<lparr>dragData := Some (clientX event, clientY event), listening := True\<rparr>
      else g)"

definition evtMouseup :: "mouse_event \<Rightarrow> gutter \<Rightarrow> gutter" where
  "evtMouseup event g =
     (if button event \<noteq> 0 \<or> drag_of g = None then g\<lparr>listening := False\<rparr> else g)"

definition startDrag :: "int \<Rightarrow> int \<Rightarrow> gutter \<Rightarrow> gutter" where
  "startDrag x y g =
     g\<lparr>drag_of := Some \<lparr>mime_types = [FACTORY_MIME], supportedActions = ''copy'',
                         proposedAction = ''copy'', start_point = (x, y)\<rparr>,
       listening := False\<rparr>"

text \<open>
  \<open>_evtMousemove\<close> (lines 768-786). Reading \<open>pressX\<close> of a null \<open>_dragData\<close> throws.
  \<open>preventDefault\<close> and \<open>stopPropagation\<close> act on the event only.
\<close>

definition evtMousemove :: "mouse_event \<Rightarrow> gutter \<Rightarrow> error + gutter" where
  "evtMousemove event g =
     (if drag_of g \<noteq> None then Inr g
      else case dragData g of
        None \<Rightarrow> Inl TypeError
      | Some (pressX, pressY) \<Rightarrow>
          (let dx = \<bar>clientX event - pressX\<bar>;
               dy = \<bar>clientY event - pressY\<bar>
           in if dx < DRAG_THRESHOLD \<and> dy < DRAG_THRESHOLD then Inr g
              else Inr (startDrag (clientX event) (clientY event) g)))"

text \<open>The promise of \<open>drag.start\<close> resolves when the drag ends, and clears \<open>_drag\<close>.\<close>

definition drag_finished :: "gutter \<Rightarrow> gutter" where
  "drag_finished g = g\<lparr>drag_of := None\<rparr>"

definition Gutter_handleEvent :: "mouse_event \<Rightarrow> gutter \<Rightarrow> error + gutter" where
  "Gutter_handleEvent event g =
     (if mouse_type event = ''mousedown'' then Inr (evtMousedown event g)
      else if mouse_type event = ''mouseup'' then Inr (evtMouseup event g)
      else if mouse_type event = ''mousemove'' then evtMousemove event g
      else Inr g)"

definition Gutter_dispose :: "gutter \<Rightarrow> gutter" where
  "Gutter_dispose g = g\<lparr>dragData := None, drag_of := None\<rparr>"

text \<open>
  The document hands the \<open>mousemove\<close> events that follow a press to the gutter, one
  after the other; an exception ends the run.
\<close>

fun mousemoves :: "mouse_event list \<Rightarrow> gutter \<Rightarrow> error + gutter" where
  "mousemoves [] g = Inr g"
| "mousemoves (m # ms) g =
     (case evtMousemove m g of Inl err \<Rightarrow> Inl err | Inr g' \<Rightarrow> mousemoves ms g')"

subsection \<open>Widgets\<close>

datatype widget =
    Widget (classes: "string set") (textContent: string) (children: "widget list")
  | Gutter (classes: "string set") (textContent: string) (gutter_state: gutter)
  | Stdin (classes: "string set") (stdin_state: stdin)

text \<open>\<open>new Widget()\<close> and \<open>new Panel()\<close>: no class, no text, no child.\<close>

definition new_Widget :: widget where
  "new_Widget = Widget {} [] []"

fun addClass :: "string \<Rightarrow> widget \<Rightarrow> widget" where
  "addClass c (Widget cs t ws) = Widget (insert c cs) t ws"
| "addClass c (Gutter cs t g) = Gutter (insert c cs) t g"
| "addClass c (Stdin cs s) = Stdin (insert c cs) s"

definition hasClass :: "string \<Rightarrow> widget \<Rightarrow> bool" where
  "hasClass c w = (c \<in> classes w)"

text \<open>\<open>panel.addWidget(w)\<close> appends a child to a panel.\<close>

fun addWidget :: "widget \<Rightarrow> widget \<Rightarrow> widget" where
  "addWidget w (Widget cs t ws) = Widget cs t (ws @ [w])"
| "addWidget w p = p"

text \<open>The setter of \<open>IGutter.text\<close> writes the text of the node.\<close>

fun set_text :: "string \<Rightarrow> widget \<Rightarrow> widget" where
  "set_text t (Widget cs _ ws) = Widget cs t ws"
| "set_text t (Gutter cs _ g) = Gutter cs t g"
| "set_text t (Stdin cs s) = Stdin cs s"

subsection \<open>Output models, the renderer and the content factory\<close>

text \<open>
  An item of the output list (\<open>OutputModel.IModel\<close>): its type, its execution count
  (\<open>None\<close> is \<open>null\<close>), the name of its stream and its MIME bundle.
\<close>

record output_model =
  output_type :: string
  execution_count :: "int option"
  name :: string
  data :: "(string \<times> string) list"

text \<open>
  \<open>RenderMime.render\<close> yields a widget, or nothing when no renderer knows the bundle.
\<close>

type_synonym rendermime = "output_model \<Rightarrow> widget option"

record output_options =
  o_rendermime :: rendermime
  o_model :: output_model
  o_gutter :: widget

text \<open>
  What \<open>createOutput\<close> does: the widget it returns, the gutter it was given (it may
  have written the label), and the lines it wrote with \<open>console.warn\<close>.
\<close>

record output_result =
  result :: widget
  gutter_after :: widget
  warnings :: "string list"

record content_factory =
  createGutter :: widget
  createOutput :: "output_options \<Rightarrow> output_result"
  createStdin :: "stdin_options \<Rightarrow> widget"

text \<open>A number in a template literal: decimal digits.\<close>

fun string_of_nat :: "nat \<Rightarrow> string" where
  "string_of_nat n =
     (if n < 10 then [char_of (48 + n)]
      else string_of_nat (n div 10) @ [char_of (48 + n mod 10)])"

declare string_of_nat.simps [simp del]

definition string_of_int :: "int \<Rightarrow> string" where
  "string_of_int i =
     (if i < 0 then CHR ''-'' # string_of_nat (nat (- i)) else string_of_nat (nat i))"

text \<open>\<open>ContentFactory.createOutput\<close> (lines 555-590).\<close>

definition ContentFactory_createOutput :: "output_options \<Rightarrow> output_result" where
  "ContentFactory_createOutput options =
     (case o_rendermime options (o_model options) of
        None \<Rightarrow>
          \<lparr>result = new_Widget, gutter_after = o_gutter options,
           warnings = [''Did not find renderer for output mimebundle.'']\<rparr>
      | Some widget \<Rightarrow>
          (let model = o_model options in
           if output_type model = ''execute_result'' then
             \<lparr>result = addClass EXECUTE_CLASS widget,
              gutter_after =
                set_text (''Out['' @ (case execution_count model of
                                        None \<Rightarrow> '' ''
                                      | Some count \<Rightarrow> string_of_int count) @ '']:'')
                  (o_gutter options),
              warnings = []\<rparr>
           else if output_type model = ''display_data'' then
             \<lparr>result = addClass DISPLAY_CLASS widget, gutter_after = o_gutter options,
              warnings = []\<rparr>
           else if output_type model = ''stream'' then
             \<lparr>result = (if name model = ''stdout'' then addClass STDOUT_CLASS widget
                        else addClass STDERR_CLASS widget),
              gutter_after = o_gutter options, warnings = []\<rparr>
           else if output_type model = ''error'' then
             \<lparr>result = addClass ERROR_CLASS widget, gutter_after = o_gutter options,
              warnings = []\<rparr>
           else
             \<lparr>result = widget, gutter_after = o_gutter options, warnings = []\<rparr>))"

definition ContentFactory_createGutter :: widget where
  "ContentFactory_createGutter = Gutter {} [] new_Gutter"

definition ContentFactory_createStdin :: "stdin_options \<Rightarrow> widget" where
  "ContentFactory_createStdin options = Stdin {} (new_Stdin options)"

definition defaultContentFactory :: content_factory where
  "defaultContentFactory =
     \<lparr>createGutter = ContentFactory_createGutter,
      createOutput = ContentFactory_createOutput,
      createStdin = ContentFactory_createStdin\<rparr>"

subsection \<open>The output area\<close>

text \<open>
  The fields of an \<open>OutputArea\<close>. \<open>model\<close> is a reference to the shared output model.
  \<open>update_pending\<close> says that \<open>update()\<close> has posted an update request that has not
  been delivered yet (update requests are conflated into one). \<open>minHeight_frozen\<close> says
  that the style of the node holds a \<open>minHeight\<close> (the height of the node measured by
  \<open>clear\<close>); \<open>timers\<close> are the handles of the timeouts that have not fired, and
  \<open>timer_count\<close> is the last handle handed out by \<open>setTimeout\<close>. \<open>console\<close> collects the
  warnings of the content factory.
\<close>

record output_area =
  model :: nat
  rendermime :: rendermime
  contentFactory :: content_factory
  node_classes :: "string set"
  title_label :: string
  title_closable :: bool
  widgets :: "widget list"
  collapsed :: bool
  fixedHeight :: bool
  update_pending :: bool
  minHeight_frozen :: bool
  minHeightTimeout :: "nat option"
  timers :: "nat list"
  timer_count :: nat
  isDisposed :: bool
  disposed :: "widget list"
  console :: "string list"

record options =
  opt_model :: nat
  opt_rendermime :: rendermime
  opt_contentFactory :: "content_factory option"

text \<open>
  The fields the constructor (lines 150-160) gives a new area. The constructor also
  connects the area to the \<open>changed\<close> signal of the model: see \<open>new_OutputArea\<close> below.
\<close>

definition init_OutputArea :: "options \<Rightarrow> output_area" where
  "init_OutputArea opts =
     \<lparr>model = opt_model opts,
      rendermime = opt_rendermime opts,
      contentFactory = (case opt_contentFactory opts of
                          Some f \<Rightarrow> f
                        | None \<Rightarrow> defaultContentFactory),
      node_classes = {OUTPUT_AREA_CLASS},
      title_label = [],
      title_closable = False,
      widgets = [],
      collapsed = False,
      fixedHeight = False,
      update_pending = False,
      minHeight_frozen = False,
      minHeightTimeout = None,
      timers = [],
      timer_count = 0,
      isDisposed = False,
      disposed = [],
      console = []\<rparr>"

text \<open>The setters of \<open>collapsed\<close> and \<open>fixedHeight\<close> (lines 204-224).\<close>

definition update :: "output_area \<Rightarrow> output_area" where
  "update a = a\<lparr>update_pending := True\<rparr>"

definition set_collapsed :: "bool \<Rightarrow> output_area \<Rightarrow> output_area" where
  "set_collapsed v a = (if collapsed a = v then a else update (a\<lparr>collapsed := v\<rparr>))"

definition set_fixedHeight :: "bool \<Rightarrow> output_area \<Rightarrow> output_area" where
  "set_fixedHeight v a = (if fixedHeight a = v then a else update (a\<lparr>fixedHeight := v\<rparr>))"

text \<open>\<open>toggleClass(name, force)\<close> adds the class when \<open>force\<close> is true and removes it otherwise.\<close>

definition toggleClass :: "string \<Rightarrow> bool \<Rightarrow> output_area \<Rightarrow> output_area" where
  "toggleClass c force a =
     a\<lparr>node_classes := (if force then insert c (node_classes a) else node_classes a - {c})\<rparr>"

definition onUpdateRequest :: "output_area \<Rightarrow> output_area" where
  "onUpdateRequest a =
     toggleClass FIXED_HEIGHT_CLASS (fixedHeight a) (toggleClass COLLAPSED_CLASS (collapsed a) a)"

text \<open>The message loop delivers a pending update request to \<open>onUpdateRequest\<close>.\<close>

definition deliver_update :: "output_area \<Rightarrow> output_area" where
  "deliver_update a =
     (if update_pending a then onUpdateRequest (a\<lparr>update_pending := False\<rparr>) else a)"

text \<open>
  \<open>widgets.at(i).dispose()\<close> for a child that exists: the child leaves the layout and
  is logged. The callers check the index first.
\<close>

definition dispose_child :: "nat \<Rightarrow> output_area \<Rightarrow> output_area" where
  "dispose_child i a =
     a\<lparr>widgets := take i (widgets a) @ drop (Suc i) (widgets a),
       disposed := disposed a @ [widgets a ! i]\<rparr>"

text \<open>
  The loop of \<open>clear\<close> (lines 243-245): \<open>for (let i = 0; i < this.widgets.length; i++)
  this.widgets.at(0).dispose()\<close>. The bound is read again at every turn.
\<close>

function clear_loop :: "nat \<Rightarrow> output_area \<Rightarrow> output_area" where
  "clear_loop i a =
     (if i < length (widgets a) then clear_loop (i + 1) (dispose_child 0 a) else a)"
  by pat_completeness auto
termination
  by (relation "measure (\<lambda>(i, a). length (widgets a) - i)") (auto simp: dispose_child_def)

declare clear_loop.simps [simp del]

text \<open>
  \<open>clear\<close> (lines 236-263): after the loop it freezes the height of the node, cancels
  the timeout it had set before and sets a new one.
\<close>

definition clearTimeout :: "nat \<Rightarrow> output_area \<Rightarrow> output_area" where
  "clearTimeout h a = a\<lparr>timers := removeAll h (timers a)\<rparr>"

definition clear :: "output_area \<Rightarrow> output_area" where
  "clear a =
     (if length (widgets a) = 0 then a
      else
        (let a1 = clear_loop 0 a;
             a2 = a1\<lparr>minHeight_frozen := True\<rparr>;
             a3 = (case minHeightTimeout a2 of
                     None \<Rightarrow> a2
                   | Some h \<Rightarrow> if h = 0 then a2 else clearTimeout h a2);
             h' = Suc (timer_count a3)
         in a3\<lparr>minHeightTimeout := Some h', timers := timers a3 @ [h'],
               timer_count := h'\<rparr>))"

text \<open>The timeout set by \<open>clear\<close> fires (lines 257-262).\<close>

definition minHeightTimeout_fires :: "nat \<Rightarrow> output_area \<Rightarrow> output_area" where
  "minHeightTimeout_fires h a =
     (if h \<in> set (timers a) then
        (let a1 = a\<lparr>timers := removeAll h (timers a)\<rparr>
         in if isDisposed a1 then a1 else a1\<lparr>minHeight_frozen := False\<rparr>)
      else a)"

text \<open>
  \<open>PanelLayout.insertWidget\<close> clamps the index to the bounds of the children.
\<close>

definition insertWidget :: "nat \<Rightarrow> widget \<Rightarrow> widget list \<Rightarrow> widget list" where
  "insertWidget index w ws = (let j = min index (length ws) in take j ws @ [w] @ drop j ws)"

text \<open>
  \<open>_insertOutput\<close> (lines 379-392). \<open>output_panel\<close> is the panel it builds, and
  \<open>output_warnings\<close> what the factory wrote to the console meanwhile. The gutter is
  created and handed to the factory, and is not added to the panel.
\<close>

definition output_panel :: "output_area \<Rightarrow> output_model \<Rightarrow> widget" where
  "output_panel a m =
     (let factory = contentFactory a;
          panel = new_Widget;
          gutter = addClass GUTTER_CLASS (createGutter factory);
          r = createOutput factory
                \<lparr>o_rendermime = rendermime a, o_model = m, o_gutter = gutter\<rparr>;
          res = addClass OUTPUT_CLASS (result r);
          panel = addWidget res panel;
          panel = addClass CHILD_CLASS panel;
          panel = addClass OUTPUT_CLASS panel
      in panel)"

definition output_warnings :: "output_area \<Rightarrow> output_model \<Rightarrow> string list" where
  "output_warnings a m =
     warnings (createOutput (contentFactory a)
       \<lparr>o_rendermime = rendermime a, o_model = m,
        o_gutter = addClass GUTTER_CLASS (createGutter (contentFactory a))\<rparr>)"

definition insertOutput :: "nat \<Rightarrow> output_model \<Rightarrow> output_area \<Rightarrow> output_area" where
  "insertOutput index m a =
     a\<lparr>widgets := insertWidget index (output_panel a m) (widgets a),
       console := console a @ output_warnings a m\<rparr>"

text \<open>
  The loop of \<open>_setOutput\<close> (lines 401-405): \<open>for (let i = 0; i < index; i++) if
  (widgets.at(i).hasClass(STDIN_CLASS)) index++\<close>. \<open>widgets.at(i)\<close> past the end is
  \<open>undefined\<close>, and calling \<open>hasClass\<close> on it throws.
\<close>

function skip_stdin :: "widget list \<Rightarrow> nat \<Rightarrow> nat \<Rightarrow> error + nat" where
  "skip_stdin ws i index =
     (if i < index then
        (if i < length ws then
           skip_stdin ws (i + 1) (if hasClass STDIN_CLASS (ws ! i) then index + 1 else index)
         else Inl TypeError)
      else Inr index)"
  by pat_completeness auto
termination
  by (relation "measure (\<lambda>(ws, i, index). length ws - i)") auto

declare skip_stdin.simps [simp del]

text \<open>
  \<open>_setOutput\<close> (lines 397-408). A negative index runs the loop no time and reads
  \<open>widgets.at(index)\<close>, which is \<open>undefined\<close>.
\<close>

definition setOutput :: "int \<Rightarrow> output_model \<Rightarrow> output_area \<Rightarrow> error + output_area" where
  "setOutput index m a =
     (if index < 0 then Inl TypeError
      else case skip_stdin (widgets a) 0 (nat index) of
        Inl e \<Rightarrow> Inl e
      | Inr p \<Rightarrow>
          if p < length (widgets a) then Inr (insertOutput p m (dispose_child p a))
          else Inl TypeError)"

text \<open>
  The arguments of a change event of the model (\<open>ObservableVector.IChangedArgs\<close>).
\<close>

record change_args =
  change_type :: string
  newIndex :: int
  newValues :: "output_model list"
  oldIndex :: int
  oldValues :: "output_model list"

text \<open>
  \<open>_onModelChanged\<close> (lines 413-429). An \<open>add\<close> or \<open>set\<close> event that carries no new
  value hands \<open>undefined\<close> to the content factory, which reads its fields: the call
  throws.
\<close>

definition onModelChanged :: "change_args \<Rightarrow> output_area \<Rightarrow> error + output_area" where
  "onModelChanged args a =
     (if change_type args = ''add'' then
        (case newValues args of
           [] \<Rightarrow> Inl TypeError
         | v # _ \<Rightarrow> Inr (insertOutput (length (widgets a)) v a))
      else if change_type args = ''remove'' then Inr (clear a)
      else if change_type args = ''set'' then
        (case newValues args of
           [] \<Rightarrow> Inl TypeError
         | v # _ \<Rightarrow> setOutput (newIndex args) v a)
      else Inr a)"

text \<open>\<open>_onInputRequest\<close> (lines 358-374): a panel with a gutter and a stdin widget, added last.\<close>

definition stdin_panel :: "output_area \<Rightarrow> stdin_options \<Rightarrow> widget" where
  "stdin_panel a opts =
     (let factory = contentFactory a;
          panel = new_Widget;
          gutter = addClass GUTTER_CLASS (createGutter factory);
          panel = addWidget gutter panel;
          input = addClass STDIN_CLASS (createStdin factory opts);
          panel = addWidget input panel;
          panel = addClass CHILD_CLASS panel;
          panel = addClass STDIN_CLASS panel
      in panel)"

definition onInputRequest :: "stdin_options \<Rightarrow> output_area \<Rightarrow> output_area" where
  "onInputRequest opts a = a\<lparr>widgets := widgets a @ [stdin_panel a opts]\<rparr>"

subsection \<open>Construction and mirroring\<close>

text \<open>
  \<open>mirror\<close> makes a second area while the first one lives on, so the areas sit in a
  store: \<open>areas\<close> maps a reference to the area it holds, \<open>connections\<close> lists the slots
  connected to the \<open>changed\<close> signal of a model (the model, then the area whose
  \<open>_onModelChanged\<close> is called), and \<open>next_ref\<close> is the reference the next object gets.
\<close>

record store =
  areas :: "nat \<rightharpoonup> output_area"
  connections :: "(nat \<times> nat) list"
  next_ref :: nat

text \<open>\<open>new OutputArea(options)\<close> (lines 150-160).\<close>

definition new_OutputArea :: "options \<Rightarrow> store \<Rightarrow> nat \<times> store" where
  "new_OutputArea opts s =
     (let r = next_ref s
      in (r, s\<lparr>areas := (areas s)(r \<mapsto> init_OutputArea opts),
               connections := connections s @ [(opt_model opts, r)],
               next_ref := Suc r\<rparr>))"

text \<open>
  \<open>mirror\<close> (lines 165-174), called on the area at reference \<open>this\<close>. No area at
  \<open>this\<close> means no call.
\<close>

definition mirror :: "nat \<Rightarrow> store \<Rightarrow> (nat \<times> store) option" where
  "mirror this s =
     (case areas s this of
        None \<Rightarrow> None
      | Some a \<Rightarrow>
          (let (widget, s1) =
                 new_OutputArea
                   \<lparr>opt_model = model a, opt_rendermime = rendermime a,
                    opt_contentFactory = Some (contentFactory a)\<rparr> s
           in case areas s1 widget of
                None \<Rightarrow> None
              | Some w \<Rightarrow>
                  Some (widget,
                    s1\<lparr>areas := (areas s1)(widget \<mapsto>
                         w\<lparr>title_label := ''Mirrored Output'',
                           title_closable := True,
                           node_classes :=
                             insert MIRRORED_OUTPUT_AREA_CLASS (node_classes w)\<rparr>)\<rparr>)))"

subsection \<open>Kernel messages and execution\<close>

text \<open>The calls the module makes on the output model: \<open>add(output)\<close> and \<open>clear(wait)\<close>
  (\<open>None\<close>: the argument is \<open>undefined\<close>).\<close>

datatype model_call = ModelAdd json_object | ModelClear "json option"

text \<open>An IOPub message: \<open>header.msg_type\<close> and \<open>content\<close>.\<close>

record iopub_message =
  msg_type :: string
  content :: json_object

text \<open>
  \<open>_onIOPub\<close> (lines 308-327): the calls it makes on the model. The output handed to
  \<open>add\<close> is the content of the message with \<open>output_type\<close> written into it.
\<close>

definition onIOPub :: "iopub_message \<Rightarrow> model_call list" where
  "onIOPub msg =
     (let msgType = msg_type msg in
      if msgType = ''execute_result'' \<or> msgType = ''display_data'' \<or>
         msgType = ''stream'' \<or> msgType = ''error'' then
        [ModelAdd (AList.update ''output_type'' (JString msgType) (content msg))]
      else if msgType = ''clear_output'' then
        [ModelClear (map_of (content msg) ''wait'')]
      else [])"

text \<open>
  An execute reply: its content (\<open>None\<close>: no content), whose payload is a list of JSON
  objects (\<open>None\<close>: no payload).
\<close>

record reply_content =
  status :: string
  payload :: "json_object list option"

record execute_reply =
  reply_content :: "reply_content option"

text \<open>\<open>_onExecuteReply\<close> (lines 332-353): the calls it makes on the model.\<close>

definition onExecuteReply :: "execute_reply \<Rightarrow> model_call list" where
  "onExecuteReply msg =
     (case reply_content msg of
        None \<Rightarrow> []
      | Some c \<Rightarrow>
          (case payload c of
             None \<Rightarrow> []
           | Some pl \<Rightarrow>
               if length pl = 0 then []
               else
                 (let pages = filter (\<lambda>i. map_of i ''source'' = Some (JString ''page'')) pl
                  in case pages of
                       [] \<Rightarrow> []
                     | page # _ \<Rightarrow>
                         [ModelAdd
                            ([(''output_type'', JString ''display_data'')] @
                             (case map_of page ''data'' of
                                None \<Rightarrow> []
                              | Some d \<Rightarrow> [(''data'', d)]) @
                             [(''metadata'', JObject [])])])))"

text \<open>A message on the stdin channel; an input request carries a prompt and a password flag.\<close>

record stdin_message =
  stdin_msg_type :: string
  stdin_prompt :: js_string
  stdin_password :: bool

definition isInputRequestMsg :: "stdin_message \<Rightarrow> bool" where
  "isInputRequestMsg msg = (stdin_msg_type msg = ''input_request'')"

record execute_request =
  request_code :: js_string
  stop_on_error :: bool

datatype 'a promise = Pending | Resolved 'a | Rejected error

text \<open>
  What \<open>execute\<close> works on: the area, the calls made on the model so far, the requests
  sent to kernels (the kernel, then the content), the kernel of the running request and
  the promise \<open>execute\<close> returned.
\<close>

record execution =
  area :: output_area
  model_calls :: "model_call list"
  requests :: "(nat \<times> execute_request) list"
  future_kernel :: nat
  reply :: "execute_reply promise"

text \<open>
  The constructor connects \<open>_onModelChanged\<close> to the \<open>changed\<close> signal of the model
  (line 159), so the handler runs as a slot of that signal. The signal catches an
  exception of a slot and logs it: whoever made the model emit goes on, and the area is
  as the handler left it when it threw. The handler throws before it has changed the
  area, but for a \<open>set\<close> event without a new value: \<open>_setOutput\<close> has disposed of the
  child by the time the content factory is handed \<open>undefined\<close>.
\<close>

definition thrown_onModelChanged :: "change_args \<Rightarrow> output_area \<Rightarrow> output_area" where
  "thrown_onModelChanged args a =
     (if change_type args = ''set'' \<and> newValues args = [] \<and> 0 \<le> newIndex args then
        (case skip_stdin (widgets a) 0 (nat (newIndex args)) of
           Inl e \<Rightarrow> a
         | Inr p \<Rightarrow> if p < length (widgets a) then dispose_child p a else a)
      else a)"

definition slot_onModelChanged :: "change_args \<Rightarrow> output_area \<Rightarrow> output_area" where
  "slot_onModelChanged args a =
     (case onModelChanged args a of
        Inl err \<Rightarrow> thrown_onModelChanged args a
      | Inr a' \<Rightarrow> a')"

text \<open>The model sends change events to the area, one after the other.\<close>

fun deliver :: "change_args list \<Rightarrow> output_area \<Rightarrow> output_area" where
  "deliver [] a = a"
| "deliver (e # es) a = deliver es (slot_onModelChanged e a)"

text \<open>
  \<open>execute\<close> (lines 268-295). The model is not part of the module: \<open>cleared\<close> are the
  change events it sends while \<open>model.clear()\<close> runs. Then comes \<open>this.clear()\<close>, and
  the promise, whose executor sends the request to the kernel.
\<close>

definition execute ::
  "js_string \<Rightarrow> nat \<Rightarrow> change_args list \<Rightarrow> model_call list \<Rightarrow> (nat \<times> execute_request) list \<Rightarrow>
   output_area \<Rightarrow> execution" where
  "execute code k cleared calls reqs a =
     (let content = \<lparr>request_code = code, stop_on_error = True\<rparr>;
          a1 = deliver cleared a
      in \<lparr>area = clear a1,
          model_calls = calls @ [ModelClear None],
          requests = reqs @ [(k, content)],
          future_kernel = k,
          reply = Pending\<rparr>)"

text \<open>The three handlers of the future (lines 280-293). A promise settles once.\<close>

definition resolve :: "'a \<Rightarrow> 'a promise \<Rightarrow> 'a promise" where
  "resolve v p = (case p of Pending \<Rightarrow> Resolved v | _ \<Rightarrow> p)"

definition future_onIOPub :: "iopub_message \<Rightarrow> execution \<Rightarrow> execution" where
  "future_onIOPub msg x = x\<lparr>model_calls := model_calls x @ onIOPub msg\<rparr>"

definition future_onReply :: "execute_reply \<Rightarrow> execution \<Rightarrow> execution" where
  "future_onReply msg x =
     x\<lparr>model_calls := model_calls x @ onExecuteReply msg,
       reply := resolve msg (reply x)\<rparr>"

definition future_onStdin :: "stdin_message \<Rightarrow> execution \<Rightarrow> execution" where
  "future_onStdin msg x =
     (if isInputRequestMsg msg then
        x\<lparr>area := onInputRequest
                     \<lparr>prompt = stdin_prompt msg, password = stdin_password msg,
                      opt_kernel = future_kernel x\<rparr> (area x)\<rparr>
      else x)"

subsection \<open>Example areas\<close>

text \<open>
  A renderer that knows \<open>text/plain\<close> only, display outputs that carry such a text, and
  areas built from an empty one by the events of a run: an output is added for each
  displayed value, a stdin panel for each input request.
\<close>

definition text_renderer :: rendermime where
  "text_renderer m =
     (case map_of (data m) ''text/plain'' of
        None \<Rightarrow> None
      | Some t \<Rightarrow> Some (Widget {} t []))"

definition text_output :: "string \<Rightarrow> output_model" where
  "text_output t =
     \<lparr>output_type = ''display_data'', execution_count = None, name = [],
      data = [(''text/plain'', t)]\<rparr>"

definition empty_area :: output_area where
  "empty_area =
     init_OutputArea \<lparr>opt_model = 0, opt_rendermime = text_renderer, opt_contentFactory = None\<rparr>"

definition remove_event :: change_args where
  "remove_event =
     \<lparr>change_type = ''remove'', newIndex = 0, newValues = [], oldIndex = 0, oldValues = []\<rparr>"

definition input_request :: stdin_options where
  "input_request = \<lparr>prompt = [], password = False, opt_kernel = 0\<rparr>"

definition two_outputs :: output_area where
  "two_outputs =
     insertOutput 1 (text_output ''b'') (insertOutput 0 (text_output ''a'') empty_area)"

definition stdin_between :: output_area where
  "stdin_between =
     insertOutput 2 (text_output ''b'')
       (onInputRequest input_request (insertOutput 0 (text_output ''a'') empty_area))"

text \<open>An area after four input requests and no output: the model is empty.\<close>

definition four_stdin :: output_area where
  "four_stdin =
     onInputRequest input_request (onInputRequest input_request
       (onInputRequest input_request (onInputRequest input_request empty_area)))"

definition add_event :: "int \<Rightarrow> output_model \<Rightarrow> change_args" where
  "add_event i v =
     \<lparr>change_type = ''add'', newIndex = i, newValues = [v], oldIndex = - 1, oldValues = []\<rparr>"

text \<open>An output that the text renderer cannot render.\<close>

definition image_output :: output_model where
  "image_output =
     \<lparr>output_type = ''display_data'', execution_count = None, name = [],
      data = [(''image/png'', ''iVBORw0KGgo='')]\<rparr>"

text \<open>A store that holds the empty area at reference 0.\<close>

definition one_area_store :: store where
  "one_area_store = \<lparr>areas = [0 \<mapsto> empty_area], connections = [(0, 0)], next_ref = 1\<rparr>"

text \<open>Three IOPub messages: a stream output, a request to clear, a status report.\<close>

definition stream_msg :: iopub_message where
  "stream_msg =
     \<lparr>msg_type = ''stream'',
      content = [(''name'', JString ''stdout''), (''text'', JString ''hi'')]\<rparr>"

definition clear_msg :: iopub_message where
  "clear_msg = \<lparr>msg_type = ''clear_output'', content = [(''wait'', JBool True)]\<rparr>"

definition status_msg :: iopub_message where
  "status_msg =
     \<lparr>msg_type = ''status'', content = [(''execution_state'', JString ''idle'')]\<rparr>"

text \<open>Mouse and keyboard events.\<close>

definition press_at :: "int \<Rightarrow> int \<Rightarrow> mouse_event" where
  "press_at x y = \<lparr>mouse_type = ''mousedown'', button = 0, clientX = x, clientY = y\<rparr>"

definition move_to :: "int \<Rightarrow> int \<Rightarrow> mouse_event" where
  "move_to x y = \<lparr>mouse_type = ''mousemove'', button = 0, clientX = x, clientY = y\<rparr>"

definition enter :: keyboard_event where
  "enter = \<lparr>event_type = ''keydown'', keyCode = 13\<rparr>"

text \<open>A password prompt \<open>?\<close> into which \<open>abc\<close> has been typed.\<close>

definition typed_password :: stdin where
  "typed_password =
     (new_Stdin \<lparr>prompt = [0x3F], password = True, opt_kernel = 0\<rparr>)
       \<lparr>input_value := [0x61, 0x62, 0x63]\<rparr>"

text \<open>
  The empty area after \<open>fixedHeight\<close> has been set: first with the update request still
  pending, then with the update delivered.
\<close>

definition pending_fixedHeight :: output_area where
  "pending_fixedHeight = set_fixedHeight True empty_area"

definition fixed_area :: output_area where
  "fixed_area = deliver_update pending_fixedHeight"

text \<open>Which children of a list bear the stdin class.\<close>

definition stdin_flags :: "widget list \<Rightarrow> bool list" where
  "stdin_flags ws = map (hasClass STDIN_CLASS) ws"

section \<open>Properties\<close>

lemmas class_names =
  OUTPUT_AREA_CLASS_def MIRRORED_OUTPUT_AREA_CLASS_def CHILD_CLASS_def GUTTER_CLASS_def
  OUTPUT_CLASS_def STDIN_CLASS_def EXECUTE_CLASS_def DISPLAY_CLASS_def STDOUT_CLASS_def
  STDERR_CLASS_def ERROR_CLASS_def STDIN_GUTTER_CLASS_def STDIN_INPUT_CLASS_def
  STDIN_RENDERED_CLASS_def FIXED_HEIGHT_CLASS_def COLLAPSED_CLASS_def

lemmas example_defs =
  two_outputs_def stdin_between_def four_stdin_def insertOutput_def insertWidget_def
  empty_area_def init_OutputArea_def output_panel_def onInputRequest_def stdin_panel_def
  dispose_child_def output_warnings_def defaultContentFactory_def
  ContentFactory_createOutput_def text_renderer_def text_output_def

subsection \<open>Widgets and panels\<close>

lemma hasClass_addClass: "hasClass c (addClass d w) = (c = d \<or> hasClass c w)"
  by (cases w) (auto simp: hasClass_def)

lemma hasClass_output_panel:
  "hasClass c (output_panel a m) = (c = CHILD_CLASS \<or> c = OUTPUT_CLASS)"
  by (auto simp: output_panel_def new_Widget_def hasClass_def Let_def)

lemma hasClass_stdin_panel:
  "hasClass c (stdin_panel a m) = (c = CHILD_CLASS \<or> c = STDIN_CLASS)"
  by (auto simp: stdin_panel_def new_Widget_def hasClass_def Let_def)

lemma widgets_two_outputs:
  "widgets two_outputs =
     [output_panel empty_area (text_output ''a''), output_panel empty_area (text_output ''b'')]"
  by (simp add: example_defs)

lemma widgets_stdin_between:
  "widgets stdin_between =
     [output_panel empty_area (text_output ''a''), stdin_panel empty_area input_request,
      output_panel empty_area (text_output ''b'')]"
  by (simp add: example_defs)

subsection \<open>The loop of \<open>_setOutput\<close>\<close>

text \<open>
  What the loop computes. It stops at the first position \<open>p\<close> that has \<open>index\<close> children
  without the stdin class before it; it never looks at the child at \<open>p\<close> itself.
\<close>

lemma skip_stdin_Inr:
  "skip_stdin ws i index = Inr p \<Longrightarrow> i \<le> index \<Longrightarrow> i \<le> length ws \<Longrightarrow>
     i \<le> p \<and> p \<le> length ws \<and>
     p = index + length (filter (hasClass STDIN_CLASS) (drop i (take p ws)))"
proof (induction ws i index rule: skip_stdin.induct)
  case (1 ws i index)
  show ?case
  proof (cases "i < index")
    case False
    with "1.prems" show ?thesis by (simp add: skip_stdin.simps)
  next
    case True
    with "1.prems"(1) have len: "i < length ws"
      by (subst (asm) skip_stdin.simps) (simp split: if_splits)
    let ?index = "if hasClass STDIN_CLASS (ws ! i) then index + 1 else index"
    have rec: "skip_stdin ws (i + 1) ?index = Inr p"
      using "1.prems"(1) True len by (subst (asm) skip_stdin.simps) simp
    have ih: "i + 1 \<le> p \<and> p \<le> length ws \<and>
      p = ?index + length (filter (hasClass STDIN_CLASS) (drop (i + 1) (take p ws)))"
      using "1.IH"[OF True len rec] True len by simp
    then have "drop i (take p ws) = ws ! i # drop (i + 1) (take p ws)"
      using len by (simp add: Cons_nth_drop_Suc[symmetric])
    with ih show ?thesis by auto
  qed
qed

lemma skip_stdin_count:
  assumes "skip_stdin ws 0 k = Inr p"
  shows "p \<le> length ws"
    and "length (filter (\<lambda>w. \<not> hasClass STDIN_CLASS w) (take p ws)) = k"
proof -
  from skip_stdin_Inr[OF assms] have p: "p \<le> length ws"
    and eq: "p = k + length (filter (hasClass STDIN_CLASS) (take p ws))" by simp_all
  show "p \<le> length ws" by (rule p)
  have "length (filter (hasClass STDIN_CLASS) (take p ws)) +
        length (filter (\<lambda>w. \<not> hasClass STDIN_CLASS w) (take p ws)) = length (take p ws)"
    by (rule sum_length_filter_compl)
  with p eq show "length (filter (\<lambda>w. \<not> hasClass STDIN_CLASS w) (take p ws)) = k"
    by simp
qed

text \<open>With no stdin child among the children the loop returns the index it was given.\<close>

lemma skip_stdin_no_stdin:
  "\<forall>w \<in> set ws. \<not> hasClass STDIN_CLASS w \<Longrightarrow> i \<le> k \<Longrightarrow> k \<le> length ws \<Longrightarrow>
   skip_stdin ws i k = Inr k"
proof (induction ws i k rule: skip_stdin.induct)
  case (1 ws i index)
  show ?case
  proof (cases "i < index")
    case False
    then show ?thesis by (simp add: skip_stdin.simps)
  next
    case True
    with "1.prems" have len: "i < length ws" by simp
    with "1.prems" have ns: "\<not> hasClass STDIN_CLASS (ws ! i)" by simp
    have "skip_stdin ws i index = skip_stdin ws (i + 1) index"
      using True len ns by (subst skip_stdin.simps) simp
    also have "\<dots> = Inr index"
      using "1.IH"[OF True len] "1.prems" True ns by simp
    finally show ?thesis .
  qed
qed

text \<open>
  Claim C1: a \<open>set\<close> event at index \<open>k\<close> disposes of the \<open>k\<close>-th child that does not bear
  the stdin class and puts the new output in its place, and no stdin widget is ever
  disposed of or displaced by it.

  The code does not do so. In an area whose children are an output, a stdin panel and
  a second output, a \<open>set\<close> event for the second output (index 1) stops the loop at
  position 1: the stdin panel is disposed of, the new output takes its place, and the
  output it was meant to replace stays.
\<close>

theorem setOutput_disposes_stdin:
  "stdin_flags (widgets stdin_between) = [False, True, False] \<and>
   setOutput 1 (text_output ''c'') stdin_between =
     Inr (stdin_between
       \<lparr>widgets := [output_panel empty_area (text_output ''a''),
                    output_panel empty_area (text_output ''c''),
                    output_panel empty_area (text_output ''b'')],
        disposed := [stdin_panel empty_area input_request]\<rparr>) \<and>
   hasClass STDIN_CLASS (stdin_panel empty_area input_request)"
proof (intro conjI)
  show "stdin_flags (widgets stdin_between) = [False, True, False]"
    by (simp add: stdin_flags_def widgets_stdin_between hasClass_output_panel
        hasClass_stdin_panel class_names)
  have "skip_stdin (widgets stdin_between) 0 (nat 1) = Inr 1"
    by (simp add: skip_stdin.simps widgets_stdin_between hasClass_output_panel class_names)
  then show "setOutput 1 (text_output ''c'') stdin_between =
     Inr (stdin_between
       \<lparr>widgets := [output_panel empty_area (text_output ''a''),
                    output_panel empty_area (text_output ''c''),
                    output_panel empty_area (text_output ''b'')],
        disposed := [stdin_panel empty_area input_request]\<rparr>)"
    by (simp add: setOutput_def widgets_stdin_between) (simp add: example_defs)
  show "hasClass STDIN_CLASS (stdin_panel empty_area input_request)"
    by (simp add: hasClass_stdin_panel)
qed

subsection \<open>The loop of \<open>clear\<close>\<close>

text \<open>
  The counter goes up while the bound comes down, so the loop stops half way: of \<open>n\<close>
  children the first \<open>(n + 1) div 2\<close> are disposed of and the other \<open>n div 2\<close> stay.
\<close>

lemma clear_loop_eq:
  "clear_loop i a =
     a\<lparr>widgets := drop ((length (widgets a) - i + 1) div 2) (widgets a),
       disposed := disposed a @ take ((length (widgets a) - i + 1) div 2) (widgets a)\<rparr>"
proof (induction i a rule: clear_loop.induct)
  case (1 i a)
  show ?case
  proof (cases "i < length (widgets a)")
    case False
    then show ?thesis by (simp add: clear_loop.simps)
  next
    case True
    then obtain w ws where ws: "widgets a = w # ws" by (cases "widgets a") auto
    have k: "(length (widgets a) - i + 1) div 2 = Suc ((length ws - (i + 1) + 1) div 2)"
      using True ws by simp arith
    have "clear_loop i a = clear_loop (i + 1) (dispose_child 0 a)"
      using True by (subst clear_loop.simps) simp
    also have "\<dots> = a\<lparr>widgets := drop ((length (widgets a) - i + 1) div 2) (widgets a),
       disposed := disposed a @ take ((length (widgets a) - i + 1) div 2) (widgets a)\<rparr>"
      unfolding "1.IH"[OF True] k by (simp add: dispose_child_def ws)
    finally show ?thesis .
  qed
qed

lemma widgets_clear:
  "widgets (clear a) = drop ((length (widgets a) + 1) div 2) (widgets a)"
  by (simp add: clear_def clear_loop_eq Let_def clearTimeout_def split: option.splits)

lemma disposed_clear:
  "disposed (clear a) = disposed a @ take ((length (widgets a) + 1) div 2) (widgets a)"
  by (simp add: clear_def clear_loop_eq Let_def clearTimeout_def split: option.splits)

lemma length_widgets_clear: "length (widgets (clear a)) = length (widgets a) div 2"
  by (simp add: widgets_clear)

text \<open>The two cases in which \<open>clear\<close> does empty the area: no child, and one child.\<close>

lemma clear_empty: "widgets a = [] \<Longrightarrow> clear a = a"
  by (simp add: clear_def)

lemma clear_single:
  "widgets a = [w] \<Longrightarrow> widgets (clear a) = [] \<and> disposed (clear a) = disposed a @ [w]"
  by (simp add: widgets_clear disposed_clear)

text \<open>
  Claim C2: a \<open>remove\<close> event, and \<open>clear()\<close> on an area that has a child, remove every
  child, so that the list of children is empty; \<open>clear()\<close> on an empty area does
  nothing.

  The code does not empty an area of two children or more. In an area with two outputs,
  \<open>clear()\<close> and the \<open>remove\<close> event dispose of the first output and leave the second.
\<close>

theorem clear_leaves_children:
  "length (widgets two_outputs) = 2 \<and>
   widgets (clear two_outputs) = [output_panel empty_area (text_output ''b'')] \<and>
   onModelChanged remove_event two_outputs = Inr (clear two_outputs)"
  by (simp add: widgets_clear widgets_two_outputs onModelChanged_def remove_event_def)

subsection \<open>Execution\<close>

lemma onModelChanged_remove:
  "change_type e = ''remove'' \<Longrightarrow> onModelChanged e a = Inr (clear a)"
  by (simp add: onModelChanged_def)

lemma slot_onModelChanged_remove:
  "change_type e = ''remove'' \<Longrightarrow> slot_onModelChanged e a = clear a"
  by (simp add: slot_onModelChanged_def onModelChanged_remove)

text \<open>Every \<open>remove\<close> event halves the number of children.\<close>

lemma deliver_removes:
  "\<forall>e \<in> set es. change_type e = ''remove'' \<Longrightarrow>
   length (widgets (deliver es a)) = length (widgets a) div 2 ^ length es"
proof (induction es arbitrary: a)
  case Nil
  then show ?case by simp
next
  case (Cons e es)
  then have "length (widgets (deliver es (clear a))) =
      length (widgets (clear a)) div 2 ^ length es"
    by simp
  moreover have "length (widgets a) div 2 div 2 ^ length es =
      length (widgets a) div 2 ^ Suc (length es)"
    by (simp add: div_mult2_eq)
  ultimately show ?case
    using Cons.prems by (simp add: slot_onModelChanged_remove length_widgets_clear)
qed

text \<open>
  When the model answers \<open>clear()\<close> with \<open>r\<close> \<open>remove\<close> events, \<open>execute\<close> leaves one
  child in \<open>2 ^ (r + 1)\<close>.
\<close>

lemma execute_children_left:
  assumes "\<forall>e \<in> set es. change_type e = ''remove''"
  shows "length (widgets (area (execute code k es calls reqs a))) =
     length (widgets a) div 2 ^ Suc (length es)"
proof -
  have "length (widgets a) div 2 ^ length es div 2 = length (widgets a) div (2 ^ length es * 2)"
    by (rule div_mult2_eq[symmetric])
  then have "length (widgets a) div 2 ^ length es div 2 =
      length (widgets a) div 2 ^ Suc (length es)"
    by (simp add: mult.commute)
  with deliver_removes[OF assms, of a] show ?thesis
    by (simp add: execute_def length_widgets_clear)
qed

text \<open>
  Whatever events the model sends, the request goes out after the model has been told
  to clear, and the promise is resolved with the reply the kernel delivers.
\<close>

lemma execute_request:
  "reply (execute code k es calls reqs a) = Pending \<and>
   requests (execute code k es calls reqs a) =
     reqs @ [(k, \<lparr>request_code = code, stop_on_error = True\<rparr>)] \<and>
   model_calls (execute code k es calls reqs a) = calls @ [ModelClear None]"
  by (simp add: execute_def)

lemma execute_reply_resolves:
  "reply (future_onReply msg (execute code k es calls reqs a)) = Resolved msg"
  by (simp add: execute_def future_onReply_def resolve_def)

lemma widgets_four_stdin:
  "widgets four_stdin =
     [stdin_panel empty_area input_request, stdin_panel empty_area input_request,
      stdin_panel empty_area input_request, stdin_panel empty_area input_request]"
  by (simp add: example_defs)

text \<open>
  Claim C3: \<open>execute(code, kernel)\<close> returns a promise that resolves with the execute
  reply the kernel delivers, and before it issues the request it clears the output model
  and the children of the area, stdin widgets included.

  The promise does resolve with the reply (\<open>execute_reply_resolves\<close>), and the model is
  told to clear (\<open>execute_request\<close>). The children are not all removed. In an area that
  holds the stdin panels of four input requests, \<open>execute\<close> leaves one stdin panel when
  the model answers \<open>clear()\<close> with a \<open>remove\<close> event, and two when it sends no event.
\<close>

theorem execute_leaves_stdin:
  "stdin_flags (widgets four_stdin) = [True, True, True, True] \<and>
   widgets (area (execute [] 0 [remove_event] [] [] four_stdin)) =
     [stdin_panel empty_area input_request] \<and>
   widgets (area (execute [] 0 [] [] [] four_stdin)) =
     [stdin_panel empty_area input_request, stdin_panel empty_area input_request]"
  by (simp add: execute_def slot_onModelChanged_def onModelChanged_def remove_event_def
      widgets_clear widgets_four_stdin stdin_flags_def hasClass_stdin_panel)

subsection \<open>IOPub messages\<close>

text \<open>
  Claim C4: \<open>_onIOPub\<close> maps a message of type \<open>execute_result\<close>, \<open>display_data\<close>,
  \<open>stream\<close> or \<open>error\<close> to one call of \<open>model.add\<close> with the content of the message, in
  which \<open>output_type\<close> is the type of the message; a message of type \<open>clear_output\<close> to one
  call of \<open>model.clear\<close> with the \<open>wait\<close> flag of the message; and any other message to
  no call on the model. The area itself is not touched.
\<close>

theorem onIOPub_calls:
  "(msg_type msg \<in> {''execute_result'', ''display_data'', ''stream'', ''error''} \<longrightarrow>
      (\<exists>output. onIOPub msg = [ModelAdd output] \<and>
         map_of output = (map_of (content msg))(''output_type'' \<mapsto> JString (msg_type msg)))) \<and>
   (msg_type msg = ''clear_output'' \<longrightarrow>
      onIOPub msg = [ModelClear (map_of (content msg) ''wait'')]) \<and>
   (msg_type msg \<notin> {''execute_result'', ''display_data'', ''stream'', ''error'',
                     ''clear_output''} \<longrightarrow>
      onIOPub msg = [] \<and> model_calls (future_onIOPub msg x) = model_calls x) \<and>
   area (future_onIOPub msg x) = area x"
  by (auto simp: onIOPub_def future_onIOPub_def Let_def update_conv')

theorem onIOPub_calls_witness:
  "onIOPub stream_msg =
     [ModelAdd [(''name'', JString ''stdout''), (''text'', JString ''hi''),
                (''output_type'', JString ''stream'')]] \<and>
   onIOPub clear_msg = [ModelClear (Some (JBool True))] \<and>
   onIOPub status_msg = []"
  using onIOPub_calls[of stream_msg] onIOPub_calls[of clear_msg] onIOPub_calls[of status_msg]
  by (simp add: stream_msg_def clear_msg_def status_msg_def onIOPub_def)

subsection \<open>Added outputs\<close>

text \<open>
  Claim C5: on an \<open>add\<close> event the new output widget is put at the end of the children,
  at the index that equals their number, whatever index the event carries.
\<close>

theorem add_appends:
  "change_type args = ''add'' \<Longrightarrow> newValues args = v # vs \<Longrightarrow>
   onModelChanged args a =
     Inr (a\<lparr>widgets := widgets a @ [output_panel a v],
            console := console a @ output_warnings a v\<rparr>) \<and>
   onModelChanged (args\<lparr>newIndex := j\<rparr>) a = onModelChanged args a"
  by (simp add: onModelChanged_def insertOutput_def insertWidget_def)

theorem add_appends_witness:
  "map_sum id widgets (onModelChanged (add_event 0 (text_output ''c'')) two_outputs) =
     Inr [output_panel empty_area (text_output ''a''),
          output_panel empty_area (text_output ''b''),
          output_panel empty_area (text_output ''c'')]"
  using add_appends[of "add_event 0 (text_output ''c'')" "text_output ''c''" "[]" two_outputs 0]
  by (simp add: add_event_def widgets_two_outputs) (simp add: example_defs)

subsection \<open>The content factory\<close>

text \<open>
  Claim C6: when the renderer yields no widget for an output, \<open>createOutput\<close> writes a
  warning to the console and returns a fresh empty widget; it has no other error branch
  (it warns exactly when the renderer yields nothing); and when the renderer yields a
  widget, \<open>createOutput\<close> returns that widget with the class of its output type added:
  the execute class, the display class, the stdout or stderr class of a stream, the
  error class. A widget of any other output type is returned as it is.
\<close>

theorem createOutput_placeholder:
  "(o_rendermime options (o_model options) = None \<longrightarrow>
      ContentFactory_createOutput options =
        \<lparr>result = new_Widget, gutter_after = o_gutter options,
         warnings = [''Did not find renderer for output mimebundle.'']\<rparr>) \<and>
   (\<forall>w. o_rendermime options (o_model options) = Some w \<longrightarrow>
      warnings (ContentFactory_createOutput options) = [] \<and>
      result (ContentFactory_createOutput options) =
        (if output_type (o_model options) = ''execute_result'' then addClass EXECUTE_CLASS w
         else if output_type (o_model options) = ''display_data'' then addClass DISPLAY_CLASS w
         else if output_type (o_model options) = ''stream'' then
           (if name (o_model options) = ''stdout'' then addClass STDOUT_CLASS w
            else addClass STDERR_CLASS w)
         else if output_type (o_model options) = ''error'' then addClass ERROR_CLASS w
         else w)) \<and>
   (warnings (ContentFactory_createOutput options) \<noteq> []) =
     (o_rendermime options (o_model options) = None)"
  by (auto simp: ContentFactory_createOutput_def Let_def split: option.splits)

theorem createOutput_placeholder_witness:
  "ContentFactory_createOutput
     \<lparr>o_rendermime = text_renderer, o_model = image_output,
      o_gutter = ContentFactory_createGutter\<rparr> =
     \<lparr>result = Widget {} [] [], gutter_after = ContentFactory_createGutter,
      warnings = [''Did not find renderer for output mimebundle.'']\<rparr> \<and>
   result (ContentFactory_createOutput
     \<lparr>o_rendermime = text_renderer, o_model = text_output ''a'',
      o_gutter = ContentFactory_createGutter\<rparr>) = Widget {DISPLAY_CLASS} ''a'' []"
  using createOutput_placeholder[of
      "\<lparr>o_rendermime = text_renderer, o_model = image_output,
        o_gutter = ContentFactory_createGutter\<rparr>"]
    createOutput_placeholder[of
      "\<lparr>o_rendermime = text_renderer, o_model = text_output ''a'',
        o_gutter = ContentFactory_createGutter\<rparr>"]
  by (simp add: text_renderer_def image_output_def text_output_def new_Widget_def)

subsection \<open>The drag threshold\<close>

lemma mousemoves_dragging: "drag_of g \<noteq> None \<Longrightarrow> mousemoves ms g = Inr g"
  by (induction ms) (auto simp: evtMousemove_def)

lemma mousemoves_pressed:
  assumes "drag_of g = None" and "dragData g = Some (px, py)"
  shows "mousemoves ms g =
     Inr (case find (\<lambda>m. DRAG_THRESHOLD \<le> \<bar>clientX m - px\<bar> \<or>
                          DRAG_THRESHOLD \<le> \<bar>clientY m - py\<bar>) ms of
            None \<Rightarrow> g
          | Some m \<Rightarrow> startDrag (clientX m) (clientY m) g)"
proof (induction ms)
  case Nil
  show ?case by simp
next
  case (Cons m ms)
  show ?case
  proof (cases "DRAG_THRESHOLD \<le> \<bar>clientX m - px\<bar> \<or> DRAG_THRESHOLD \<le> \<bar>clientY m - py\<bar>")
    case True
    then have "evtMousemove m g = Inr (startDrag (clientX m) (clientY m) g)"
      using assms by (auto simp: evtMousemove_def Let_def)
    moreover have "drag_of (startDrag (clientX m) (clientY m) g) \<noteq> None"
      by (simp add: startDrag_def)
    ultimately show ?thesis
      using True by (simp add: mousemoves_dragging)
  next
    case False
    then have "evtMousemove m g = Inr g"
      using assms by (auto simp: evtMousemove_def Let_def)
    then show ?thesis
      using False Cons.IH by simp
  qed
qed

text \<open>
  Claim C7: after a press of the left button at \<open>(pressX, pressY)\<close>, a later mousemove
  starts a drag if and only if the pointer is at least \<open>DRAG_THRESHOLD\<close> (5) pixels
  away from the press along the horizontal or the vertical axis; while both distances
  are below 5 no drag starts; and once a drag is active a mousemove starts no second
  one.

  For the mousemoves \<open>ms\<close> that follow the press: a drag is active after them exactly
  when one of them is that far away, it is the drag started at the first such move, and
  the gutter is otherwise as the press left it.
\<close>

theorem drag_threshold:
  assumes "drag_of g = None" and "button press = 0"
  shows "DRAG_THRESHOLD = 5 \<and>
    (\<exists>g'. mousemoves ms (evtMousedown press g) = Inr g' \<and>
       (drag_of g' \<noteq> None) =
         (\<exists>m \<in> set ms. DRAG_THRESHOLD \<le> \<bar>clientX m - clientX press\<bar> \<or>
                        DRAG_THRESHOLD \<le> \<bar>clientY m - clientY press\<bar>) \<and>
       g' = (case find (\<lambda>m. DRAG_THRESHOLD \<le> \<bar>clientX m - clientX press\<bar> \<or>
                            DRAG_THRESHOLD \<le> \<bar>clientY m - clientY press\<bar>) ms of
               None \<Rightarrow> evtMousedown press g
             | Some m \<Rightarrow> startDrag (clientX m) (clientY m) (evtMousedown press g))) \<and>
    (\<forall>d m. drag_of d \<noteq> None \<longrightarrow> evtMousemove m d = Inr d)"
proof -
  let ?far = "\<lambda>m. DRAG_THRESHOLD \<le> \<bar>clientX m - clientX press\<bar> \<or>
                   DRAG_THRESHOLD \<le> \<bar>clientY m - clientY press\<bar>"
  let ?p = "evtMousedown press g"
  have p: "drag_of ?p = None" "dragData ?p = Some (clientX press, clientY press)"
    using assms by (simp_all add: evtMousedown_def)
  have run: "mousemoves ms ?p =
     Inr (case find ?far ms of None \<Rightarrow> ?p | Some m \<Rightarrow> startDrag (clientX m) (clientY m) ?p)"
    by (rule mousemoves_pressed[OF p])
  have "(drag_of (case find ?far ms of None \<Rightarrow> ?p
                  | Some m \<Rightarrow> startDrag (clientX m) (clientY m) ?p) \<noteq> None) =
        (\<exists>m \<in> set ms. ?far m)"
  proof (cases "find ?far ms")
    case None
    then have "\<not> (\<exists>m \<in> set ms. ?far m)" by (auto simp: find_None_iff)
    with None show ?thesis using p(1) by simp
  next
    case (Some m)
    then have "\<exists>m \<in> set ms. ?far m" by (auto simp: find_Some_iff)
    with Some show ?thesis by (simp add: startDrag_def)
  qed
  with run have "\<exists>g'. mousemoves ms ?p = Inr g' \<and>
       (drag_of g' \<noteq> None) = (\<exists>m \<in> set ms. ?far m) \<and>
       g' = (case find ?far ms of None \<Rightarrow> ?p
             | Some m \<Rightarrow> startDrag (clientX m) (clientY m) ?p)"
    by simp
  moreover have "\<forall>d m. drag_of d \<noteq> None \<longrightarrow> evtMousemove m d = Inr d"
    by (simp add: evtMousemove_def)
  ultimately show ?thesis
    by (simp add: DRAG_THRESHOLD_def)
qed

theorem drag_threshold_witness:
  "map_sum id drag_of
     (mousemoves [move_to 14 24, move_to 12 16, move_to 15 20, move_to 40 40]
        (evtMousedown (press_at 10 20) new_Gutter)) =
   Inr (Some \<lparr>mime_types = [FACTORY_MIME], supportedActions = ''copy'',
              proposedAction = ''copy'', start_point = (15, 20)\<rparr>) \<and>
   map_sum id drag_of
     (mousemoves [move_to 14 24, move_to 6 16] (evtMousedown (press_at 10 20) new_Gutter)) =
   Inr None"
  using drag_threshold[of new_Gutter "press_at 10 20"
      "[move_to 14 24, move_to 12 16, move_to 15 20, move_to 40 40]",
      THEN conjunct2, THEN conjunct1]
    drag_threshold[of new_Gutter "press_at 10 20" "[move_to 14 24, move_to 6 16]",
      THEN conjunct2, THEN conjunct1]
  by (auto simp: new_Gutter_def press_at_def move_to_def DRAG_THRESHOLD_def startDrag_def
      evtMousedown_def)

subsection \<open>The state flags\<close>

lemma class_distinct: "COLLAPSED_CLASS \<noteq> FIXED_HEIGHT_CLASS"
  by (simp add: class_names)

lemma node_classes_cong: "S = T \<Longrightarrow> r\<lparr>node_classes := S\<rparr> = r\<lparr>node_classes := T\<rparr>"
  by simp

lemma deliver_update_pending:
  "update_pending a \<Longrightarrow> deliver_update a = (onUpdateRequest a)\<lparr>update_pending := False\<rparr>"
  by (simp add: deliver_update_def onUpdateRequest_def toggleClass_def)

text \<open>
  Claim C8, as it was written: setting \<open>collapsed\<close> or \<open>fixedHeight\<close> to a new value
  toggles exactly the class of that property (\<open>jp-mod-collapsed\<close>,
  \<open>jp-mod-fixedHeight\<close>) on the next update and changes no other state of the widget.

  This fails when the update of the other property is still pending. In the empty area
  \<open>fixedHeight\<close> is set, and then \<open>collapsed\<close>, before any update is delivered: the
  area bears neither class at the second call, and the next update adds both.
\<close>

theorem pending_update_toggles_both:
  "collapsed pending_fixedHeight = False \<and>
   node_classes pending_fixedHeight = {OUTPUT_AREA_CLASS} \<and>
   node_classes (deliver_update (set_collapsed True pending_fixedHeight)) =
     {FIXED_HEIGHT_CLASS, COLLAPSED_CLASS, OUTPUT_AREA_CLASS} \<and>
   node_classes (onUpdateRequest (set_collapsed True pending_fixedHeight)) =
     {FIXED_HEIGHT_CLASS, COLLAPSED_CLASS, OUTPUT_AREA_CLASS}"
  by (simp add: pending_fixedHeight_def empty_area_def init_OutputArea_def set_fixedHeight_def
      set_collapsed_def update_def deliver_update_def onUpdateRequest_def toggleClass_def)

text \<open>
  Claim C8, amended: setting \<open>collapsed\<close> or \<open>fixedHeight\<close> to the value it has does
  nothing and schedules no update. Setting it to a new value posts an update request.
  When the class of the other property mirrors the flag of that property at the call
  (as it does after construction, and after an update that no change of that property
  has followed), the next update leaves the area as it was before the call, but for the
  flag that was set, the pending request and the class of the property set, which is
  present exactly when the new value is true. In any state, the next update leaves the
  area as the update alone would have left it, but for these three: what else it
  changes is the class of the other property, brought in line with its flag.
\<close>

theorem setters_toggle_class:
  "(collapsed a = v \<longrightarrow> set_collapsed v a = a) \<and>
   (collapsed a \<noteq> v \<longrightarrow>
      update_pending (set_collapsed v a) \<and>
      onUpdateRequest (set_collapsed v a) =
        (onUpdateRequest a)
          \<lparr>collapsed := v, update_pending := True,
           node_classes := (if v then insert COLLAPSED_CLASS (node_classes (onUpdateRequest a))
                            else node_classes (onUpdateRequest a) - {COLLAPSED_CLASS})\<rparr> \<and>
      ((FIXED_HEIGHT_CLASS \<in> node_classes a) = fixedHeight a \<longrightarrow>
         onUpdateRequest (set_collapsed v a) =
           a\<lparr>collapsed := v, update_pending := True,
             node_classes := (if v then insert COLLAPSED_CLASS (node_classes a)
                              else node_classes a - {COLLAPSED_CLASS})\<rparr>)) \<and>
   (fixedHeight a = v \<longrightarrow> set_fixedHeight v a = a) \<and>
   (fixedHeight a \<noteq> v \<longrightarrow>
      update_pending (set_fixedHeight v a) \<and>
      onUpdateRequest (set_fixedHeight v a) =
        (onUpdateRequest a)
          \<lparr>fixedHeight := v, update_pending := True,
           node_classes := (if v then insert FIXED_HEIGHT_CLASS (node_classes (onUpdateRequest a))
                            else node_classes (onUpdateRequest a) - {FIXED_HEIGHT_CLASS})\<rparr> \<and>
      ((COLLAPSED_CLASS \<in> node_classes a) = collapsed a \<longrightarrow>
         onUpdateRequest (set_fixedHeight v a) =
           a\<lparr>fixedHeight := v, update_pending := True,
             node_classes := (if v then insert FIXED_HEIGHT_CLASS (node_classes a)
                              else node_classes a - {FIXED_HEIGHT_CLASS})\<rparr>))"
  using class_distinct
  by (auto simp: set_collapsed_def set_fixedHeight_def update_def onUpdateRequest_def
      toggleClass_def intro!: node_classes_cong)

text \<open>
  The amended claim at an area whose \<open>fixedHeight\<close> class is set and mirrors its flag:
  setting \<open>collapsed\<close> adds the collapsed class and keeps the other, and clearing
  \<open>fixedHeight\<close> removes its class.
\<close>

lemma fixed_area_fields:
  "collapsed fixed_area = False" "fixedHeight fixed_area = True"
  "node_classes fixed_area = {FIXED_HEIGHT_CLASS, OUTPUT_AREA_CLASS}"
  by (simp_all add: fixed_area_def pending_fixedHeight_def empty_area_def init_OutputArea_def
      set_fixedHeight_def update_def deliver_update_def onUpdateRequest_def toggleClass_def
      class_names)

theorem setters_toggle_class_witness:
  "set_collapsed False fixed_area = fixed_area \<and>
   onUpdateRequest (set_collapsed True fixed_area) =
     fixed_area\<lparr>collapsed := True, update_pending := True,
                node_classes := {COLLAPSED_CLASS, FIXED_HEIGHT_CLASS, OUTPUT_AREA_CLASS}\<rparr> \<and>
   set_fixedHeight True fixed_area = fixed_area \<and>
   onUpdateRequest (set_fixedHeight False fixed_area) =
     fixed_area\<lparr>fixedHeight := False, update_pending := True,
                node_classes := {OUTPUT_AREA_CLASS}\<rparr>"
proof -
  note e = fixed_area_fields
  have f: "FIXED_HEIGHT_CLASS \<in> node_classes fixed_area"
    "COLLAPSED_CLASS \<notin> node_classes fixed_area"
    by (simp_all add: e class_names)
  have a: "set_collapsed False fixed_area = fixed_area"
    using setters_toggle_class[of fixed_area False] e(1) by blast
  have c: "set_fixedHeight True fixed_area = fixed_area"
    using setters_toggle_class[of fixed_area True] e(2) by blast
  have b: "onUpdateRequest (set_collapsed True fixed_area) =
      fixed_area\<lparr>collapsed := True, update_pending := True,
        node_classes := (if True then insert COLLAPSED_CLASS (node_classes fixed_area)
                         else node_classes fixed_area - {COLLAPSED_CLASS})\<rparr>"
    using setters_toggle_class[of fixed_area True] e(1,2) f by blast
  have d: "onUpdateRequest (set_fixedHeight False fixed_area) =
      fixed_area\<lparr>fixedHeight := False, update_pending := True,
        node_classes := (if False then insert FIXED_HEIGHT_CLASS (node_classes fixed_area)
                         else node_classes fixed_area - {FIXED_HEIGHT_CLASS})\<rparr>"
    using setters_toggle_class[of fixed_area False] e(1,2) f by blast
  show ?thesis
    unfolding a b c d by (simp add: e(3) class_names)
qed

subsection \<open>The stdin widget\<close>

lemma join_holes: "join (replicate (Suc n) []) sep = concat (replicate n sep)"
proof (induction n)
  case 0
  show ?case by simp
next
  case (Suc n)
  have "join (replicate (Suc (Suc n)) []) sep = sep @ join (replicate (Suc n) []) sep"
    by simp
  with Suc show ?case by simp
qed

lemma rendered_password:
  "input_type s = ''password'' \<Longrightarrow> rendered_text s = replicate (length (input_value s)) 0xB7"
  by (simp add: rendered_text_def Array_def join_holes MIDDLE_DOT_def del: replicate.simps)

text \<open>
  Claim C9: in the default stdin widget, Enter sends the typed value to the kernel with
  \<open>sendInputReply\<close> and replaces the input element by a rendered span; for a password
  the text of the span is the middle dot repeated once for each character of the value,
  so two values of the same length are shown alike: the node shows the length of the
  value and nothing else of it.

  \<open>s\<close> is a stdin widget whose node still holds the prompt and the input element, as
  the constructor made it; a character is a UTF-16 code unit, as \<open>length\<close> counts them.
\<close>

theorem stdin_enter:
  assumes "event_type event = ''keydown''" and "keyCode event = 13"
    and "node s = [Span STDIN_GUTTER_CLASS p, Input STDIN_INPUT_CLASS]"
  shows "Stdin_handleEvent event s =
     (s\<lparr>input_replies := input_replies s @ [input_value s],
        node := [Span STDIN_GUTTER_CLASS p,
                 Span STDIN_RENDERED_CLASS
                   (if input_type s = ''password''
                    then replicate (length (input_value s)) 0xB7
                    else input_value s)]\<rparr>, None) \<and>
   (\<forall>s'. input_type s = ''password'' \<longrightarrow> node s' = node s \<longrightarrow>
      input_type s' = input_type s \<longrightarrow>
      length (input_value s') = length (input_value s) \<longrightarrow>
      node (fst (Stdin_handleEvent event s')) = node (fst (Stdin_handleEvent event s)))"
proof -
  have run: "Stdin_handleEvent event t =
     (t\<lparr>input_replies := input_replies t @ [input_value t],
        node := [Span STDIN_GUTTER_CLASS p, Span STDIN_RENDERED_CLASS (rendered_text t)]\<rparr>, None)"
    if "node t = [Span STDIN_GUTTER_CLASS p, Input STDIN_INPUT_CLASS]" for t
    using assms(1,2) that by (simp add: Stdin_handleEvent_def Let_def)
  have "rendered_text s =
     (if input_type s = ''password'' then replicate (length (input_value s)) 0xB7
      else input_value s)"
    by (simp add: rendered_password) (simp add: rendered_text_def)
  with run[OF assms(3)] have first: "Stdin_handleEvent event s =
     (s\<lparr>input_replies := input_replies s @ [input_value s],
        node := [Span STDIN_GUTTER_CLASS p,
                 Span STDIN_RENDERED_CLASS
                   (if input_type s = ''password''
                    then replicate (length (input_value s)) 0xB7
                    else input_value s)]\<rparr>, None)"
    by simp
  have "node (fst (Stdin_handleEvent event s')) = node (fst (Stdin_handleEvent event s))"
    if "input_type s = ''password''" "node s' = node s" "input_type s' = input_type s"
       "length (input_value s') = length (input_value s)" for s'
    using that run[of s'] run[OF assms(3)] assms(3) by (simp add: rendered_password)
  with first show ?thesis by blast
qed

theorem stdin_enter_witness:
  "Stdin_handleEvent enter typed_password =
   (\<lparr>node = [Span STDIN_GUTTER_CLASS [0x3F], Span STDIN_RENDERED_CLASS [0xB7, 0xB7, 0xB7]],
     input_type = ''password'', input_value = [0x61, 0x62, 0x63], kernel = 0,
     input_replies = [[0x61, 0x62, 0x63]]\<rparr>, None)"
  using stdin_enter[of enter typed_password "[0x3F]", THEN conjunct1]
  by (simp add: enter_def typed_password_def new_Stdin_def createInputWidgetNode_def)

subsection \<open>Mirroring\<close>

lemma mirror_eq:
  assumes "areas s this = Some a"
  shows "mirror this s =
     Some (next_ref s,
       s\<lparr>areas := (areas s)(next_ref s \<mapsto>
            (init_OutputArea \<lparr>opt_model = model a, opt_rendermime = rendermime a,
                              opt_contentFactory = Some (contentFactory a)\<rparr>)
              \<lparr>title_label := ''Mirrored Output'', title_closable := True,
               node_classes := {MIRRORED_OUTPUT_AREA_CLASS, OUTPUT_AREA_CLASS}\<rparr>),
         connections := connections s @ [(model a, next_ref s)],
         next_ref := Suc (next_ref s)\<rparr>)"
  using assms by (simp add: mirror_def new_OutputArea_def Let_def init_OutputArea_def)

text \<open>
  Claim C10: \<open>mirror()\<close> makes a new output area that has the model, the renderer and
  the content factory of the original, bears the mirrored class, and has a closable
  title labelled \<open>Mirrored Output\<close>; the original area is not changed by the call.

  The store is well formed when no reference from \<open>next_ref\<close> on is in use. The new
  area gets a reference that was free, and every other area of the store, the original
  among them, is as it was.
\<close>

theorem mirror_shares_and_preserves:
  assumes "areas s this = Some a" and "\<forall>r. next_ref s \<le> r \<longrightarrow> areas s r = None"
  shows "\<exists>w s' m. mirror this s = Some (w, s') \<and>
     areas s w = None \<and> areas s' w = Some m \<and>
     model m = model a \<and> rendermime m = rendermime a \<and> contentFactory m = contentFactory a \<and>
     MIRRORED_OUTPUT_AREA_CLASS \<in> node_classes m \<and>
     title_label m = ''Mirrored Output'' \<and> title_closable m \<and>
     areas s' this = Some a \<and>
     (\<forall>r. r \<noteq> w \<longrightarrow> areas s' r = areas s r)"
proof -
  from assms have "this \<noteq> next_ref s" "areas s (next_ref s) = None" by auto
  with assms(1) show ?thesis
    by (simp add: mirror_eq init_OutputArea_def)
qed

theorem mirror_shares_and_preserves_witness:
  "\<exists>s'. mirror 0 one_area_store = Some (1, s') \<and>
     areas s' 0 = Some empty_area \<and>
     map_option model (areas s' 1) = Some 0 \<and>
     map_option node_classes (areas s' 1) =
       Some {MIRRORED_OUTPUT_AREA_CLASS, OUTPUT_AREA_CLASS} \<and>
     map_option title_label (areas s' 1) = Some ''Mirrored Output''"
  using mirror_shares_and_preserves[of one_area_store 0 empty_area]
  by (simp add: one_area_store_def mirror_eq init_OutputArea_def empty_area_def)

end
